theory Spec2Isabelle
  imports Complex_Main "HOL-Library.Word"
begin

section \<open>Values of the running program\<close>

text \<open>
  The program is TypeScript (\<^verbatim>\<open>src/src/index.ts\<close>). Its values are modelled as follows.

  \<^item> A \<^verbatim>\<open>number\<close> is a rational: arithmetic is exact. The rounding of IEEE doubles, NaN
    and the infinities are outside this model; it serves where a property does not turn
    on them (which operand is doubled, which branch is taken, a lower bound). The premium
    formula, which is about the very figures printed, is also translated over the
    arithmetic of the program, taken as a parameter.
  \<^item> A \<^verbatim>\<open>string\<close> is the list of its UTF-16 code units, so \<open>length\<close> is JavaScript's
    \<^verbatim>\<open>.length\<close>. \<open>str\<close> embeds an ASCII literal of the source.
  \<^item> An optional field (\<^verbatim>\<open>age?: number\<close>) is an \<open>option\<close>: \<open>None\<close> is \<^verbatim>\<open>undefined\<close>.
\<close>

type_synonym number = rat
type_synonym code_unit = "16 word"
type_synonym jsstring = "code_unit list"

definition str :: "string \<Rightarrow> jsstring" where
  "str s = map of_char s"

text \<open>The euro sign U+20AC is one code unit.\<close>

definition euro :: code_unit where
  "euro = 0x20AC"

text \<open>\<^verbatim>\<open>Math.round\<close>: the nearest integer, a tie going up.\<close>

definition Math_round :: "number \<Rightarrow> int" where
  "Math_round x = \<lfloor>x + 1 / 2\<rfloor>"

text \<open>
  An integral number inside a template literal is printed in decimal (exact below
  \<open>10^21\<close>, where JavaScript switches to exponent notation).
\<close>

definition digit :: "nat \<Rightarrow> code_unit" where
  "digit d = of_nat (48 + d)"

fun nat_to_string :: "nat \<Rightarrow> jsstring" where
  "nat_to_string n =
     (if n < 10 then [digit n] else nat_to_string (n div 10) @ [digit (n mod 10)])"

definition int_to_string :: "int \<Rightarrow> jsstring" where
  "int_to_string i =
     (if i < 0 then str ''-'' @ nat_to_string (nat (- i)) else nat_to_string (nat i))"

text \<open>
  The object handed to \<^verbatim>\<open>JSON.stringify\<close>: an object literal is the list of its
  properties in source order; a property whose value is \<^verbatim>\<open>undefined\<close> is still a
  property of the object, and \<^verbatim>\<open>JSON.stringify\<close> leaves it out of the text.
\<close>

datatype json =
    JUndefined
  | JNumber number
  | JString jsstring
  | JArray "json list"
  | JObject "(string \<times> json) list"

definition opt_number :: "number option \<Rightarrow> json" where
  "opt_number v = (case v of None \<Rightarrow> JUndefined | Some x \<Rightarrow> JNumber x)"

definition opt_string :: "jsstring option \<Rightarrow> json" where
  "opt_string v = (case v of None \<Rightarrow> JUndefined | Some s \<Rightarrow> JString s)"

fun own_keys :: "json \<Rightarrow> string list" where
  "own_keys (JObject kvs) = map fst kvs"
| "own_keys _ = []"

fun serialised_keys :: "json \<Rightarrow> string list" where
  "serialised_keys (JObject kvs) = map fst (filter (\<lambda>kv. snd kv \<noteq> JUndefined) kvs)"
| "serialised_keys _ = []"

fun get_prop :: "json \<Rightarrow> string \<Rightarrow> json" where
  "get_prop (JObject kvs) k = (case map_of kvs k of None \<Rightarrow> JUndefined | Some v \<Rightarrow> v)"
| "get_prop _ k = JUndefined"


section \<open>The recommendation engine\<close>

text \<open>
  The interface \<^verbatim>\<open>UserProfile\<close>, with the type of its \<^verbatim>\<open>number\<close> fields as a parameter;
  \<open>UserProfile\<close> is the profile over the exact numbers.
\<close>

record 'n Profile =
  age :: "'n option"
  drivingExperience :: "'n option"
  vehicleType :: "jsstring option"
  annualMileage :: "'n option"
  drivingHabits :: "jsstring option"
  hasAccidents :: "bool option"
  accidentCount :: "'n option"
  vehicleValue :: "'n option"
  budgetRange :: "jsstring option"

type_synonym UserProfile = "number Profile"

text \<open>The profile with every field absent, and field updates of it, serve as inputs.\<close>

definition no_profile :: UserProfile where
  "no_profile = \<lparr> age = None, drivingExperience = None, vehicleType = None,
     annualMileage = None, drivingHabits = None, hasAccidents = None,
     accidentCount = None, vehicleValue = None, budgetRange = None \<rparr>"

text \<open>A driver of 30 with ten years of experience and a vehicle worth 10000.\<close>

definition sample_profile :: UserProfile where
  "sample_profile = \<lparr> age = Some 30, drivingExperience = Some 10, vehicleType = None,
     annualMileage = Some 10000, drivingHabits = None, hasAccidents = Some False,
     accidentCount = Some 0, vehicleValue = Some 10000, budgetRange = None \<rparr>"

subsection \<open>\<^verbatim>\<open>recommendPolicy\<close>: the risk score\<close>

text \<open>
  Each block of the source reads the profile and updates the local \<^verbatim>\<open>riskScore\<close>;
  the model passes the variable through. \<^verbatim>\<open>if (profile.age)\<close> is a truthiness test:
  it fails for \<^verbatim>\<open>undefined\<close> and for \<open>0\<close>.
\<close>

definition ageScoring :: "UserProfile \<Rightarrow> number \<Rightarrow> number" where
  "ageScoring profile riskScore =
     (case age profile of
        None \<Rightarrow> riskScore
      | Some a \<Rightarrow>
          if a \<noteq> 0 then
            (if a < 25 then riskScore + 3
             else if a < 35 then riskScore + 1
             else if a > 70 then riskScore + 2
             else riskScore)
          else riskScore)"

definition experienceScoring :: "UserProfile \<Rightarrow> number \<Rightarrow> number" where
  "experienceScoring profile riskScore =
     (case drivingExperience profile of
        None \<Rightarrow> riskScore
      | Some e \<Rightarrow>
          if e \<noteq> 0 then
            (if e < 2 then riskScore + 2
             else if e < 5 then riskScore + 1
             else riskScore)
          else riskScore)"

text \<open>\<^verbatim>\<open>profile.accidentCount || 1\<close>: the count when it is truthy, else 1.\<close>

definition accidentCount_or_1 :: "UserProfile \<Rightarrow> number" where
  "accidentCount_or_1 profile =
     (case accidentCount profile of
        None \<Rightarrow> 1
      | Some c \<Rightarrow> if c \<noteq> 0 then c else 1)"

definition accidentScoring :: "UserProfile \<Rightarrow> number \<Rightarrow> number" where
  "accidentScoring profile riskScore =
     (if hasAccidents profile = Some True
      then riskScore + accidentCount_or_1 profile * 2
      else riskScore)"

definition mileageScoring :: "UserProfile \<Rightarrow> number \<Rightarrow> number" where
  "mileageScoring profile riskScore =
     (case annualMileage profile of
        None \<Rightarrow> riskScore
      | Some m \<Rightarrow>
          if m \<noteq> 0 then (if m > 30000 then riskScore + 1 else riskScore)
          else riskScore)"

definition riskScore :: "UserProfile \<Rightarrow> number" where
  "riskScore profile =
     mileageScoring profile
       (accidentScoring profile
         (experienceScoring profile
           (ageScoring profile 0)))"

subsection \<open>\<^verbatim>\<open>recommendPolicy\<close>: the coverages\<close>

definition recommendedCoverages :: "UserProfile \<Rightarrow> number \<Rightarrow> jsstring list" where
  "recommendedCoverages profile score =
     (let c0 = [];
          c1 = c0 @ [str ''Third-Party Liability (Mandatory)''];
          c2 = (if score \<ge> 4
                then (c1 @ [str ''Comprehensive Coverage'']) @ [str ''Collision Protection'']
                else c1);
          c3 = (case vehicleValue profile of
                  None \<Rightarrow> c2
                | Some v \<Rightarrow>
                    if v \<noteq> 0 \<and> v > 20000
                    then (c2 @ [str ''Full Coverage Package'']) @ [str ''Roadside Assistance'']
                    else c2);
          c4 = (case annualMileage profile of
                  None \<Rightarrow> c3
                | Some m \<Rightarrow>
                    if m \<noteq> 0 \<and> m > 20000
                    then c3 @ [str ''Breakdown Assistance'']
                    else c3);
          c5 = (if drivingHabits profile = Some (str ''highway'')
                then (c4 @ [str ''Extended Coverage'']) @ [str ''Legal Assistance'']
                else c4)
      in c5)"

subsection \<open>\<^verbatim>\<open>calculateEstimatedPremium\<close>\<close>

text \<open>
  Over the exact numbers. \<open>basePrice\<close> is the value of the local variable of that name
  after the budget cap.
\<close>

definition basePrice :: "UserProfile \<Rightarrow> number \<Rightarrow> number" where
  "basePrice profile score =
     (let b0 = 80;
          b1 = b0 + score * 15;
          b2 = (case vehicleValue profile of
                  None \<Rightarrow> b1
                | Some v \<Rightarrow> if v \<noteq> 0 then b1 + v / 1000 else b1);
          b3 = (case annualMileage profile of
                  None \<Rightarrow> b2
                | Some m \<Rightarrow>
                    if m \<noteq> 0 then (if m > 30000 then b2 + 20 else b2) else b2);
          b4 = (if budgetRange profile = Some (euro # str ''50-100'') then min b3 100
                else if budgetRange profile = Some (euro # str ''100-150'') then min b3 150
                else b3)
      in b4)"

definition estimatedMonthly :: "UserProfile \<Rightarrow> number \<Rightarrow> int" where
  "estimatedMonthly profile score = Math_round (basePrice profile score)"

definition estimatedAnnual :: "UserProfile \<Rightarrow> number \<Rightarrow> int" where
  "estimatedAnnual profile score = Math_round (basePrice profile score * 12)"

definition calculateEstimatedPremium :: "UserProfile \<Rightarrow> number \<Rightarrow> jsstring" where
  "calculateEstimatedPremium profile score =
     [euro] @ int_to_string (estimatedMonthly profile score)
       @ str ''/month (approximately '' @ [euro]
       @ int_to_string (estimatedAnnual profile score) @ str ''/year)''"

subsection \<open>\<^verbatim>\<open>calculateEstimatedPremium\<close> in the arithmetic of the program\<close>

text \<open>
  The program computes in IEEE doubles: every sum, product and quotient is rounded, may
  overflow to an infinity or be NaN, and a number is printed in exponent notation from
  \<open>10^21\<close> on. Here the function is translated once more with the arithmetic it uses
  as a parameter: the number type \<open>'n\<close>, the value of a numeric literal, \<^verbatim>\<open>+\<close>, \<^verbatim>\<open>*\<close>,
  \<^verbatim>\<open>/\<close>, \<^verbatim>\<open>>\<close>, the truthiness of a number, \<^verbatim>\<open>Math.min\<close>, \<^verbatim>\<open>Math.round\<close> and the
  conversion of a number to a string in a template literal. What holds for every such
  arithmetic holds for the doubles of the running program.
\<close>

record 'n arithmetic =
  js_lit :: "nat \<Rightarrow> 'n"
  js_add :: "'n \<Rightarrow> 'n \<Rightarrow> 'n"
  js_mul :: "'n \<Rightarrow> 'n \<Rightarrow> 'n"
  js_div :: "'n \<Rightarrow> 'n \<Rightarrow> 'n"
  js_gt :: "'n \<Rightarrow> 'n \<Rightarrow> bool"
  js_truthy :: "'n \<Rightarrow> bool"
  js_min :: "'n \<Rightarrow> 'n \<Rightarrow> 'n"
  js_round :: "'n \<Rightarrow> 'n"
  js_to_string :: "'n \<Rightarrow> jsstring"

definition basePrice_in :: "'n arithmetic \<Rightarrow> 'n Profile \<Rightarrow> 'n \<Rightarrow> 'n" where
  "basePrice_in A profile score =
     (let b0 = js_lit A 80;
          b1 = js_add A b0 (js_mul A score (js_lit A 15));
          b2 = (case vehicleValue profile of
                  None \<Rightarrow> b1
                | Some v \<Rightarrow>
                    if js_truthy A v then js_add A b1 (js_div A v (js_lit A 1000)) else b1);
          b3 = (case annualMileage profile of
                  None \<Rightarrow> b2
                | Some m \<Rightarrow>
                    if js_truthy A m
                    then (if js_gt A m (js_lit A 30000) then js_add A b2 (js_lit A 20) else b2)
                    else b2);
          b4 = (if budgetRange profile = Some (euro # str ''50-100'')
                then js_min A b3 (js_lit A 100)
                else if budgetRange profile = Some (euro # str ''100-150'')
                then js_min A b3 (js_lit A 150)
                else b3)
      in b4)"

definition estimatedMonthly_in :: "'n arithmetic \<Rightarrow> 'n Profile \<Rightarrow> 'n \<Rightarrow> 'n" where
  "estimatedMonthly_in A profile score = js_round A (basePrice_in A profile score)"

definition estimatedAnnual_in :: "'n arithmetic \<Rightarrow> 'n Profile \<Rightarrow> 'n \<Rightarrow> 'n" where
  "estimatedAnnual_in A profile score =
     js_round A (js_mul A (basePrice_in A profile score) (js_lit A 12))"

definition calculateEstimatedPremium_in ::
    "'n arithmetic \<Rightarrow> 'n Profile \<Rightarrow> 'n \<Rightarrow> jsstring" where
  "calculateEstimatedPremium_in A profile score =
     [euro] @ js_to_string A (estimatedMonthly_in A profile score)
       @ str ''/month (approximately '' @ [euro]
       @ js_to_string A (estimatedAnnual_in A profile score) @ str ''/year)''"

text \<open>
  The exact arithmetic is one such arithmetic; it prints the integral numbers that
  \<^verbatim>\<open>Math.round\<close> returns. On numbers that are multiples of one half and small, as in
  the examples below, the doubles compute the same values.
\<close>

definition exact :: "number arithmetic" where
  "exact = \<lparr> js_lit = of_nat, js_add = (+), js_mul = (*), js_div = (/),
     js_gt = (\<lambda>x y. x > y), js_truthy = (\<lambda>x. x \<noteq> 0), js_min = min,
     js_round = (\<lambda>x. of_int (Math_round x)),
     js_to_string = (\<lambda>x. int_to_string \<lfloor>x\<rfloor>) \<rparr>"

subsection \<open>\<^verbatim>\<open>recommendPolicy\<close>: the result\<close>

definition riskLevel :: "number \<Rightarrow> jsstring" where
  "riskLevel score =
     (if score \<le> 2 then str ''Low''
      else if score \<le> 4 then str ''Medium''
      else str ''High'')"

definition profileSummary :: "UserProfile \<Rightarrow> number \<Rightarrow> json" where
  "profileSummary profile score =
     JObject
       [(''age'', opt_number (age profile)),
        (''experience'', opt_number (drivingExperience profile)),
        (''vehicleType'', opt_string (vehicleType profile)),
        (''riskLevel'', JString (riskLevel score)),
        (''riskScore'', JNumber score)]"

text \<open>\<^verbatim>\<open>s || d\<close> on an optional string: \<open>s\<close> when it is present and not empty.\<close>

definition string_or :: "jsstring option \<Rightarrow> jsstring \<Rightarrow> jsstring" where
  "string_or s d = (case s of None \<Rightarrow> d | Some t \<Rightarrow> if t \<noteq> [] then t else d)"

definition recommendPolicy :: "UserProfile \<Rightarrow> json" where
  "recommendPolicy profile =
     (let score = riskScore profile;
          coverages = recommendedCoverages profile score
      in JObject
           [(''profileSummary'', profileSummary profile score),
            (''recommendation'',
               JObject
                 [(''policyName'', JString (str ''RGF Car Insurance - Personalized'')),
                  (''description'', JString (str
                     ''Based on your profile, we recommend the following RGF car insurance coverage'')),
                  (''recommendedCoverages'', JArray (map JString coverages)),
                  (''estimatedPremium'', JString (calculateEstimatedPremium profile score)),
                  (''highlights'', JArray
                     [JString (str ''Tailored for ''
                        @ string_or (vehicleType profile) (str ''your vehicle'') @ str '' owners''),
                      JString (str ''Suitable for ''
                        @ string_or (drivingHabits profile) (str ''your'') @ str '' driving habits''),
                      JString (str ''Comprehensive protection for your needs''),
                      JString (str ''24/7 customer support and assistance'')])]),
            (''nextSteps'', JArray
               [JString (str ''Review the recommended coverages above''),
                JString (str ''Contact our team for a detailed quote''),
                JString (str ''Compare with other options if desired''),
                JString (str ''Complete your online application'')])])"


section \<open>The page extractors\<close>

subsection \<open>The parsed page\<close>

text \<open>
  \<^verbatim>\<open>cheerio.load\<close> turns the fetched markup into a tree; the fetch and the parser are
  libraries, and the extractors are modelled on the tree they work on. A document is the
  list of the nodes under the root, an element carries its (lower-case) name, its
  attributes and its children.
\<close>

datatype node =
    Element jsstring "(jsstring \<times> jsstring) list" "node list"
  | Text jsstring
  | Comment jsstring

type_synonym document = "node list"

text \<open>\<^verbatim>\<open>$(element).text()\<close>: the text nodes below the element, concatenated.\<close>

fun textContent :: "node \<Rightarrow> jsstring" where
  "textContent (Element name attrs children) = concat (map textContent children)"
| "textContent (Text d) = d"
| "textContent (Comment d) = []"

text \<open>\<^verbatim>\<open>$(selector)\<close>: the elements that match, in document order.\<close>

fun select_node :: "(node \<Rightarrow> bool) \<Rightarrow> node \<Rightarrow> node list" where
  "select_node sel (Element name attrs children) =
     (if sel (Element name attrs children) then [Element name attrs children] else [])
     @ concat (map (select_node sel) children)"
| "select_node sel (Text d) = []"
| "select_node sel (Comment d) = []"

definition select :: "(node \<Rightarrow> bool) \<Rightarrow> document \<Rightarrow> node list" where
  "select sel doc = concat (map (select_node sel) doc)"

text \<open>
  \<^verbatim>\<open>$(outer).find(inner)\<close>: the elements matching \<open>inner\<close> that lie strictly below some
  element matching \<open>outer\<close>, each once, in document order. \<open>inside\<close> says that an
  ancestor matches \<open>outer\<close>.
\<close>

fun find_node :: "(node \<Rightarrow> bool) \<Rightarrow> (node \<Rightarrow> bool) \<Rightarrow> bool \<Rightarrow> node \<Rightarrow> node list" where
  "find_node outer inner inside (Element name attrs children) =
     (if inside \<and> inner (Element name attrs children)
      then [Element name attrs children] else [])
     @ concat (map (find_node outer inner
                      (inside \<or> outer (Element name attrs children))) children)"
| "find_node outer inner inside (Text d) = []"
| "find_node outer inner inside (Comment d) = []"

definition find_in :: "(node \<Rightarrow> bool) \<Rightarrow> (node \<Rightarrow> bool) \<Rightarrow> document \<Rightarrow> node list" where
  "find_in outer inner doc = concat (map (find_node outer inner False) doc)"

text \<open>A type selector (\<^verbatim>\<open>h2\<close>) and a list of them (\<^verbatim>\<open>h2, h3\<close>).\<close>

fun has_tag :: "string list \<Rightarrow> node \<Rightarrow> bool" where
  "has_tag names (Element name attrs children) = (name \<in> set (map str names))"
| "has_tag names (Text d) = False"
| "has_tag names (Comment d) = False"

text \<open>
  White space as \<^verbatim>\<open>String.prototype.trim\<close> and the \<^verbatim>\<open>\s\<close> of a regular expression
  see it.
\<close>

definition is_white_space :: "code_unit \<Rightarrow> bool" where
  "is_white_space c \<longleftrightarrow>
     c \<in> {0x09, 0x0A, 0x0B, 0x0C, 0x0D, 0x20, 0xA0, 0x1680,
          0x2028, 0x2029, 0x202F, 0x205F, 0x3000, 0xFEFF}
     \<or> (0x2000 \<le> c \<and> c \<le> 0x200A)"

definition trim :: "jsstring \<Rightarrow> jsstring" where
  "trim s = rev (dropWhile is_white_space (rev (dropWhile is_white_space s)))"

text \<open>
  A class selector (\<^verbatim>\<open>.content\<close>) matches an element whose \<^verbatim>\<open>class\<close> attribute has
  the name among its white-space separated tokens.
\<close>

fun tokens :: "jsstring \<Rightarrow> jsstring \<Rightarrow> jsstring list" where
  "tokens cur [] = (if cur = [] then [] else [cur])"
| "tokens cur (c # cs) =
     (if is_white_space c then (if cur = [] then [] else [cur]) @ tokens [] cs
      else tokens (cur @ [c]) cs)"

fun has_class :: "string \<Rightarrow> node \<Rightarrow> bool" where
  "has_class cls (Element name attrs children) =
     (case map_of attrs (str ''class'') of
        None \<Rightarrow> False
      | Some v \<Rightarrow> str cls \<in> set (tokens [] v))"
| "has_class cls (Text d) = False"
| "has_class cls (Comment d) = False"

text \<open>\<^verbatim>\<open>Array.prototype.join\<close>.\<close>

fun join :: "jsstring \<Rightarrow> jsstring list \<Rightarrow> jsstring" where
  "join sep [] = []"
| "join sep [x] = x"
| "join sep (x # y # ys) = x @ sep @ join sep (y # ys)"

text \<open>
  \<^verbatim>\<open>toUpperCase\<close> and \<^verbatim>\<open>toLowerCase\<close> on the ASCII letters, which is all that the names
  of the elements selected by \<^verbatim>\<open>h2, h3, li, p\<close> contain.
\<close>

definition toUpperCase :: "jsstring \<Rightarrow> jsstring" where
  "toUpperCase s = map (\<lambda>c. if 0x61 \<le> c \<and> c \<le> 0x7A then c - 0x20 else c) s"

definition toLowerCase :: "jsstring \<Rightarrow> jsstring" where
  "toLowerCase s = map (\<lambda>c. if 0x41 \<le> c \<and> c \<le> 0x5A then c + 0x20 else c) s"

text \<open>\<^verbatim>\<open>$(element).prop("tagName") as string || ""\<close>.\<close>

fun tagName_prop :: "node \<Rightarrow> jsstring" where
  "tagName_prop (Element name attrs children) = toUpperCase name"
| "tagName_prop (Text d) = []"
| "tagName_prop (Comment d) = []"

definition TARGET_URL :: jsstring where
  "TARGET_URL = str ''https://myinsurancepolicy.be/rgf/car/fr''"

subsection \<open>\<^verbatim>\<open>extractText\<close>\<close>

definition text_selector :: "node \<Rightarrow> bool" where
  "text_selector =
     has_tag [''p'', ''h1'', ''h2'', ''h3'', ''h4'', ''h5'', ''h6'', ''li'', ''span'', ''div'']"

text \<open>The callback of \<^verbatim>\<open>.each\<close>, on the array \<^verbatim>\<open>paragraphs\<close> it pushes to.\<close>

definition extractText_each :: "jsstring list \<Rightarrow> node \<Rightarrow> jsstring list" where
  "extractText_each paragraphs element =
     (let text = trim (textContent element)
      in if text \<noteq> [] \<and> length text > 0 then paragraphs @ [text] else paragraphs)"

definition paragraphs :: "document \<Rightarrow> jsstring list" where
  "paragraphs doc = foldl extractText_each [] (select text_selector doc)"

definition blank_line :: jsstring where
  "blank_line = [0x0A, 0x0A]"

definition extractText :: "document \<Rightarrow> jsstring" where
  "extractText doc = join blank_line (paragraphs doc)"

subsection \<open>\<^verbatim>\<open>getRGFPolicyInfo\<close>\<close>

record PolicyInfo =
  policyName :: jsstring
  url :: jsstring
  coverageTypes :: "jsstring list"
  features :: "jsstring list"
  benefits :: "jsstring list"
  fullDetails :: jsstring

definition section_selector :: "node \<Rightarrow> bool" where
  "section_selector element \<longleftrightarrow>
     has_tag [''section''] element \<or> has_tag [''article''] element
     \<or> has_class ''content'' element \<or> has_class ''policy-details'' element"

definition item_selector :: "node \<Rightarrow> bool" where
  "item_selector = has_tag [''h2'', ''h3'', ''li'', ''p'']"

text \<open>The callback of \<^verbatim>\<open>.each\<close>, on the object \<^verbatim>\<open>policyInfo\<close> it pushes to.\<close>

definition policyInfo_each :: "PolicyInfo \<Rightarrow> node \<Rightarrow> PolicyInfo" where
  "policyInfo_each policyInfo element =
     (let text = trim (textContent element)
      in if text \<noteq> [] \<and> length text > 20 then
           (let tagName = toLowerCase (tagName_prop element)
            in if tagName = str ''h2'' \<or> tagName = str ''h3''
               then policyInfo\<lparr>coverageTypes := coverageTypes policyInfo @ [text]\<rparr>
               else if tagName = str ''li''
               then policyInfo\<lparr>features := features policyInfo @ [text]\<rparr>
               else policyInfo)
         else policyInfo)"

definition getRGFPolicyInfo :: "document \<Rightarrow> PolicyInfo" where
  "getRGFPolicyInfo doc =
     (let policyInfo = \<lparr> policyName = str ''RGF Car Insurance'', url = TARGET_URL,
            coverageTypes = [], features = [], benefits = [], fullDetails = [] \<rparr>;
          policyInfo = foldl policyInfo_each policyInfo
                         (find_in section_selector item_selector doc);
          policyInfo = policyInfo\<lparr>fullDetails :=
                         take 8000 (trim (concat (map textContent
                           (select (has_tag [''body'']) doc))))\<rparr>
      in policyInfo)"

subsection \<open>Document order and two small pages\<close>

text \<open>All the nodes of a tree, a parent before its children, siblings left to right.\<close>

fun subtrees :: "node \<Rightarrow> node list" where
  "subtrees (Element name attrs children) =
     Element name attrs children # concat (map subtrees children)"
| "subtrees (Text d) = [Text d]"
| "subtrees (Comment d) = [Comment d]"

definition nodes :: "document \<Rightarrow> node list" where
  "nodes doc = concat (map subtrees doc)"

text \<open>The tree of \<^verbatim>\<open><div><p>x</p></div>\<close>, which the parser puts under html and body.\<close>

definition nested_example :: "jsstring \<Rightarrow> document" where
  "nested_example x =
     [Element (str ''html'') []
        [Element (str ''head'') [] [],
         Element (str ''body'') []
           [Element (str ''div'') [] [Element (str ''p'') [] [Text x]]]]]"

text \<open>
  A page with a section, an element of class \<^verbatim>\<open>content\<close>, and a heading outside both.
\<close>

definition policy_example :: document where
  "policy_example =
     [Element (str ''html'') []
        [Element (str ''body'') []
           [Element (str ''section'') []
              [Element (str ''h2'') [] [Text (str ''  Comprehensive motor cover  '')],
               Element (str ''p'') [] [Text (str ''A paragraph that is long enough.'')],
               Element (str ''li'') [] [Text (str ''Roadside help day and night'')],
               Element (str ''h3'') [] [Text (str ''Too short'')]],
            Element (str ''div'') [(str ''class'', str ''main content'')]
              [Element (str ''li'') [] [Text (str ''Legal help in every dispute'')]],
            Element (str ''h2'') [] [Text (str ''A heading outside every section'')]]]]"


section \<open>Strings and rounding\<close>

lemma unat_of_char_16: "unat (of_char c :: 16 word) = of_char c"
proof (rule of_nat_inverse)
  show "(word_of_nat (of_char c) :: 16 word) = of_char c"
    by (simp add: of_nat_of_char)
  have "(of_char c :: nat) < 256"
    by (rule nat_of_char_less_256)
  also have "(256::nat) < 2 ^ LENGTH(16)"
    by simp
  finally show "(of_char c :: nat) < 2 ^ LENGTH(16)" .
qed

lemma of_char_16_eq_iff: "(of_char a :: 16 word) = of_char b \<longleftrightarrow> a = b"
proof
  assume "(of_char a :: 16 word) = of_char b"
  then have "unat (of_char a :: 16 word) = unat (of_char b :: 16 word)"
    by simp
  then show "a = b"
    by (simp add: unat_of_char_16)
qed simp

text \<open>Two literals of the source are equal as code units exactly when they are the same.\<close>

lemma str_eq_iff: "str s = str t \<longleftrightarrow> s = t"
  unfolding str_def by (simp add: inj_def of_char_16_eq_iff)

lemma length_str: "length (str s) = length s"
  by (simp add: str_def)

lemma Math_round_ge:
  assumes "of_int k \<le> x"
  shows "k \<le> Math_round x"
proof -
  have "of_int k \<le> x + 1 / 2"
    using assms by simp
  then show ?thesis
    unfolding Math_round_def by (simp only: le_floor_iff)
qed

lemma Math_round_100: "Math_round 100 = 100"
  by (simp add: Math_round_def floor_eq_iff)

lemma Math_round_1200: "Math_round 1200 = 1200"
  by (simp add: Math_round_def floor_eq_iff)


section \<open>The risk score\<close>

lemmas scoring_defs =
  ageScoring_def experienceScoring_def accidentScoring_def mileageScoring_def
  accidentCount_or_1_def

text \<open>The four blocks add independent terms.\<close>

lemma riskScore_terms:
  "riskScore p =
     ageScoring p 0 + experienceScoring p 0 + accidentScoring p 0 + mileageScoring p 0"
  by (simp add: riskScore_def scoring_defs split: option.splits)

text \<open>
  C1. When \<^verbatim>\<open>hasAccidents\<close> is true, the accident block adds twice the accident count
  if the count is truthy and \<open>2 * 1\<close> otherwise (the count absent, or zero); the risk
  score is the score of the same profile without accidents plus that term. A count of
  zero adds 2.
\<close>

theorem C1_accident_term:
  assumes "hasAccidents p = Some True"
  shows "accidentScoring p r =
           r + (case accidentCount p of
                  None \<Rightarrow> 2 * 1
                | Some c \<Rightarrow> if c \<noteq> 0 then 2 * c else 2 * 1)
         \<and> riskScore p =
             riskScore (p\<lparr>hasAccidents := Some False\<rparr>)
               + (case accidentCount p of
                    None \<Rightarrow> 2 * 1
                  | Some c \<Rightarrow> if c \<noteq> 0 then 2 * c else 2 * 1)
         \<and> (accidentCount p = Some 0 \<longrightarrow> accidentScoring p r = r + 2)"
  using assms by (simp add: riskScore_def scoring_defs split: option.splits)

theorem C1_accident_term_witness:
  "hasAccidents (no_profile\<lparr>hasAccidents := Some True, accidentCount := Some 0\<rparr>) = Some True
   \<and> accidentScoring (no_profile\<lparr>hasAccidents := Some True, accidentCount := Some 0\<rparr>) 0 = 2
   \<and> riskScore (no_profile\<lparr>hasAccidents := Some True, accidentCount := Some 0\<rparr>) = 2"
  using C1_accident_term
          [of "no_profile\<lparr>hasAccidents := Some True, accidentCount := Some 0\<rparr>" 0]
  by (simp add: no_profile_def riskScore_def scoring_defs)

text \<open>
  C2, as the code has it. For a profile whose age is present and not zero, the age block
  adds the term of the first matching rule: 3 below 25, else 1 below 35, else 2 above 70,
  else nothing; the risk score is the score without the age plus that term. An age of 24
  adds exactly 3, and the ages from 35 to 70 add nothing.
\<close>

theorem C2_age_term:
  assumes "age p = Some a" and "a \<noteq> 0"
  shows "ageScoring p r =
           r + (if a < 25 then 3 else if a < 35 then 1 else if a > 70 then 2 else 0)
         \<and> riskScore p =
             riskScore (p\<lparr>age := None\<rparr>)
               + (if a < 25 then 3 else if a < 35 then 1 else if a > 70 then 2 else 0)
         \<and> (a = 24 \<longrightarrow> ageScoring p r = r + 3)
         \<and> (35 \<le> a \<and> a \<le> 70 \<longrightarrow> ageScoring p r = r)"
  using assms by (simp add: riskScore_def scoring_defs split: option.splits)

theorem C2_age_term_witness:
  "age (no_profile\<lparr>age := Some 24\<rparr>) = Some 24
   \<and> (24::number) \<noteq> 0
   \<and> ageScoring (no_profile\<lparr>age := Some 24\<rparr>) 0 = 3
   \<and> riskScore (no_profile\<lparr>age := Some 24\<rparr>) = 3"
  using C2_age_term [of "no_profile\<lparr>age := Some 24\<rparr>" 24 0]
  by (simp add: no_profile_def riskScore_def scoring_defs)

text \<open>
  C2, as the claim states it, fails for a present age of 0: it is below 25, and the guard
  \<^verbatim>\<open>if (profile.age)\<close> skips the block, so nothing is added.
\<close>

theorem C2_age_zero_counterexample:
  "age (no_profile\<lparr>age := Some 0\<rparr>) = Some 0
   \<and> (0::number) < 25
   \<and> ageScoring (no_profile\<lparr>age := Some 0\<rparr>) 0 = 0
   \<and> ageScoring (no_profile\<lparr>age := Some 0\<rparr>) 0 \<noteq> 0 + 3
   \<and> riskScore (no_profile\<lparr>age := Some 0\<rparr>) = 0"
  by (simp add: no_profile_def riskScore_def scoring_defs)

text \<open>
  The age, experience and mileage terms are natural numbers whatever the profile holds;
  the accident term is one when the accident count, where it is read, is one.
\<close>

lemma ageScoring_Nats: "ageScoring p 0 \<in> \<nat>"
  by (simp add: ageScoring_def split: option.splits)

lemma experienceScoring_Nats: "experienceScoring p 0 \<in> \<nat>"
  by (simp add: experienceScoring_def split: option.splits)

lemma mileageScoring_Nats: "mileageScoring p 0 \<in> \<nat>"
  by (simp add: mileageScoring_def split: option.splits)

lemma accidentScoring_Nats:
  assumes "hasAccidents p = Some True \<longrightarrow>
             (case accidentCount p of None \<Rightarrow> True | Some c \<Rightarrow> c \<in> \<nat>)"
  shows "accidentScoring p 0 \<in> \<nat>"
proof (cases "hasAccidents p = Some True")
  case False
  then show ?thesis by (simp add: accidentScoring_def)
next
  case True
  with assms have "accidentCount_or_1 p \<in> \<nat>"
    by (simp add: accidentCount_or_1_def split: option.splits)
  then have "accidentCount_or_1 p * 2 \<in> \<nat>"
    by (intro Nats_mult) simp_all
  with True show ?thesis by (simp add: accidentScoring_def)
qed

text \<open>
  C5, as the code has it. For every profile in which the accident count, where it is
  supplied together with \<^verbatim>\<open>hasAccidents = true\<close>, is a natural number below \<open>2^1023\<close>,
  and whatever the other fields hold, the risk score is a non-negative integer. Below
  \<open>2^1023\<close> twice the count is a finite double (from \<open>2^1023\<close> on the product in the
  program is infinite); up to \<open>2^53\<close> the sums of the program are exact, and above they
  are the sums here rounded to a double, which is an integer as well.
\<close>

theorem C5_riskScore_natural:
  assumes "hasAccidents p = Some True \<longrightarrow>
             (case accidentCount p of
                None \<Rightarrow> True
              | Some c \<Rightarrow> c \<in> \<nat> \<and> c < 2 ^ 1023)"
  shows "riskScore p \<in> \<nat> \<and> 0 \<le> riskScore p"
proof -
  have "hasAccidents p = Some True \<longrightarrow>
          (case accidentCount p of None \<Rightarrow> True | Some c \<Rightarrow> c \<in> \<nat>)"
    using assms by (simp split: option.splits)
  then have "riskScore p \<in> \<nat>"
    unfolding riskScore_terms
    by (intro Nats_add ageScoring_Nats experienceScoring_Nats mileageScoring_Nats
          accidentScoring_Nats)
  then show ?thesis
    by (auto elim: Nats_cases)
qed

theorem C5_riskScore_natural_witness:
  "hasAccidents (no_profile\<lparr>age := Some (- 5), hasAccidents := Some True,
        accidentCount := Some 3\<rparr>) = Some True
   \<and> accidentCount (no_profile\<lparr>age := Some (- 5), hasAccidents := Some True,
        accidentCount := Some 3\<rparr>) = Some 3
   \<and> (3::number) \<in> \<nat>
   \<and> (3::number) < 2 ^ 1023
   \<and> riskScore (no_profile\<lparr>age := Some (- 5), hasAccidents := Some True,
        accidentCount := Some 3\<rparr>) = 9
   \<and> riskScore (no_profile\<lparr>age := Some (- 5), hasAccidents := Some True,
        accidentCount := Some 3\<rparr>) \<in> \<nat>"
  using C5_riskScore_natural
          [of "no_profile\<lparr>age := Some (- 5), hasAccidents := Some True,
                 accidentCount := Some 3\<rparr>"]
  by (simp add: no_profile_def riskScore_def scoring_defs)

text \<open>
  C5, as the claim states it, fails: inputs are not validated, and a negative accident
  count makes the score negative.
\<close>

theorem C5_negative_count_counterexample:
  "riskScore (no_profile\<lparr>hasAccidents := Some True, accidentCount := Some (- 1)\<rparr>) = - 2
   \<and> \<not> 0 \<le> riskScore (no_profile\<lparr>hasAccidents := Some True, accidentCount := Some (- 1)\<rparr>)"
  by (simp add: no_profile_def riskScore_def scoring_defs)


section \<open>The coverages\<close>

text \<open>The list after the five blocks, written as one expression.\<close>

lemma recommendedCoverages_closed:
  "recommendedCoverages p s =
     [str ''Third-Party Liability (Mandatory)'']
     @ (if s \<ge> 4 then [str ''Comprehensive Coverage'', str ''Collision Protection''] else [])
     @ (if (case vehicleValue p of None \<Rightarrow> False | Some v \<Rightarrow> v > 20000)
        then [str ''Full Coverage Package'', str ''Roadside Assistance''] else [])
     @ (if (case annualMileage p of None \<Rightarrow> False | Some m \<Rightarrow> m > 20000)
        then [str ''Breakdown Assistance''] else [])
     @ (if drivingHabits p = Some (str ''highway'')
        then [str ''Extended Coverage'', str ''Legal Assistance''] else [])"
  by (simp add: recommendedCoverages_def Let_def split: option.splits)

lemma output_coverages:
  "get_prop (get_prop (recommendPolicy p) ''recommendation'') ''recommendedCoverages'' =
     JArray (map JString (recommendedCoverages p (riskScore p)))"
  by (simp add: recommendPolicy_def Let_def)

lemma extended_distinct:
  "str ''Extended Coverage'' \<noteq> str ''Third-Party Liability (Mandatory)''"
  "str ''Extended Coverage'' \<noteq> str ''Comprehensive Coverage''"
  "str ''Extended Coverage'' \<noteq> str ''Collision Protection''"
  "str ''Extended Coverage'' \<noteq> str ''Full Coverage Package''"
  "str ''Extended Coverage'' \<noteq> str ''Roadside Assistance''"
  "str ''Extended Coverage'' \<noteq> str ''Breakdown Assistance''"
  by (simp_all add: str_eq_iff)

lemma legal_distinct:
  "str ''Legal Assistance'' \<noteq> str ''Third-Party Liability (Mandatory)''"
  "str ''Legal Assistance'' \<noteq> str ''Comprehensive Coverage''"
  "str ''Legal Assistance'' \<noteq> str ''Collision Protection''"
  "str ''Legal Assistance'' \<noteq> str ''Full Coverage Package''"
  "str ''Legal Assistance'' \<noteq> str ''Roadside Assistance''"
  "str ''Legal Assistance'' \<noteq> str ''Breakdown Assistance''"
  by (simp_all add: str_eq_iff)

lemma extended_member:
  "str ''Extended Coverage'' \<in> set (recommendedCoverages p s)
     \<longleftrightarrow> drivingHabits p = Some (str ''highway'')"
  unfolding recommendedCoverages_closed by (simp add: extended_distinct)

lemma legal_member:
  "str ''Legal Assistance'' \<in> set (recommendedCoverages p s)
     \<longleftrightarrow> drivingHabits p = Some (str ''highway'')"
  unfolding recommendedCoverages_closed by (simp add: legal_distinct)

lemma not_highway:
  "str ''Highway'' \<noteq> str ''highway''"
  "str ''Highway (long distances)'' \<noteq> str ''highway''"
  by (simp_all add: str_eq_iff)

text \<open>
  C3. Extended Coverage is among the recommended coverages exactly when
  \<^verbatim>\<open>drivingHabits\<close> is the string \<^verbatim>\<open>highway\<close>, and so is Legal Assistance, whatever the
  rest of the profile and the score; with \<^verbatim>\<open>Highway\<close> or the questionnaire's label
  \<^verbatim>\<open>Highway (long distances)\<close> neither is there.
\<close>

theorem C3_highway_exact:
  "(str ''Extended Coverage'' \<in> set (recommendedCoverages p s)
      \<longleftrightarrow> drivingHabits p = Some (str ''highway''))
   \<and> (str ''Legal Assistance'' \<in> set (recommendedCoverages p s)
      \<longleftrightarrow> drivingHabits p = Some (str ''highway''))
   \<and> str ''Extended Coverage''
        \<notin> set (recommendedCoverages (p\<lparr>drivingHabits := Some (str ''Highway'')\<rparr>) s)
   \<and> str ''Legal Assistance''
        \<notin> set (recommendedCoverages (p\<lparr>drivingHabits := Some (str ''Highway'')\<rparr>) s)
   \<and> str ''Extended Coverage''
        \<notin> set (recommendedCoverages
                 (p\<lparr>drivingHabits := Some (str ''Highway (long distances)'')\<rparr>) s)
   \<and> str ''Legal Assistance''
        \<notin> set (recommendedCoverages
                 (p\<lparr>drivingHabits := Some (str ''Highway (long distances)'')\<rparr>) s)"
  by (simp add: extended_member legal_member not_highway)

theorem C3_highway_exact_witness:
  "drivingHabits (no_profile\<lparr>drivingHabits := Some (str ''highway'')\<rparr>)
     = Some (str ''highway'')
   \<and> str ''Extended Coverage''
       \<in> set (recommendedCoverages (no_profile\<lparr>drivingHabits := Some (str ''highway'')\<rparr>) 0)
   \<and> str ''Legal Assistance''
       \<in> set (recommendedCoverages (no_profile\<lparr>drivingHabits := Some (str ''highway'')\<rparr>) 0)
   \<and> str ''Extended Coverage''
       \<notin> set (recommendedCoverages (no_profile\<lparr>drivingHabits := Some (str ''Highway'')\<rparr>) 0)"
  using C3_highway_exact [of "no_profile\<lparr>drivingHabits := Some (str ''highway'')\<rparr>" 0]
    C3_highway_exact [of "no_profile" 0]
  by (simp add: no_profile_def)

text \<open>
  C6. The recommended coverages are, in this order: the mandatory Third-Party Liability
  entry; Comprehensive Coverage and Collision Protection exactly when the risk score is
  at least 4; Full Coverage Package and Roadside Assistance exactly when the vehicle
  value is above 20000; Breakdown Assistance exactly when the annual mileage is above
  20000; Extended Coverage and Legal Assistance exactly when the driving habits are
  \<^verbatim>\<open>highway\<close>. Nothing is removed from the list, and the result carries this list
  for the profile's own risk score. A mileage between 20000 and 30000 adds Breakdown
  Assistance and nothing to the risk score.
\<close>

theorem C6_coverages_order:
  "recommendedCoverages p s =
     [str ''Third-Party Liability (Mandatory)'']
     @ (if s \<ge> 4 then [str ''Comprehensive Coverage'', str ''Collision Protection''] else [])
     @ (if (case vehicleValue p of None \<Rightarrow> False | Some v \<Rightarrow> v > 20000)
        then [str ''Full Coverage Package'', str ''Roadside Assistance''] else [])
     @ (if (case annualMileage p of None \<Rightarrow> False | Some m \<Rightarrow> m > 20000)
        then [str ''Breakdown Assistance''] else [])
     @ (if drivingHabits p = Some (str ''highway'')
        then [str ''Extended Coverage'', str ''Legal Assistance''] else [])
   \<and> hd (recommendedCoverages p s) = str ''Third-Party Liability (Mandatory)''
   \<and> get_prop (get_prop (recommendPolicy p) ''recommendation'') ''recommendedCoverages'' =
       JArray (map JString (recommendedCoverages p (riskScore p)))
   \<and> recommendedCoverages (no_profile\<lparr>annualMileage := Some 25000\<rparr>)
         (riskScore (no_profile\<lparr>annualMileage := Some 25000\<rparr>))
       = [str ''Third-Party Liability (Mandatory)'', str ''Breakdown Assistance'']
   \<and> riskScore (no_profile\<lparr>annualMileage := Some 25000\<rparr>) = 0"
  by (simp add: recommendedCoverages_closed output_coverages)
     (simp add: no_profile_def riskScore_def scoring_defs)

theorem C6_coverages_order_witness:
  "recommendedCoverages
     (no_profile\<lparr>annualMileage := Some 25000, drivingHabits := Some (str ''highway'')\<rparr>)
     (riskScore
       (no_profile\<lparr>annualMileage := Some 25000, drivingHabits := Some (str ''highway'')\<rparr>))
   = [str ''Third-Party Liability (Mandatory)'', str ''Breakdown Assistance'',
      str ''Extended Coverage'', str ''Legal Assistance'']
   \<and> riskScore
       (no_profile\<lparr>annualMileage := Some 25000, drivingHabits := Some (str ''highway'')\<rparr>)
     = 0"
  using C6_coverages_order
          [of "no_profile\<lparr>annualMileage := Some 25000,
                 drivingHabits := Some (str ''highway'')\<rparr>"
              "riskScore (no_profile\<lparr>annualMileage := Some 25000,
                 drivingHabits := Some (str ''highway'')\<rparr>)"]
  by (simp add: no_profile_def riskScore_def scoring_defs)


section \<open>The premium\<close>

text \<open>The base price after the cap, written as one expression.\<close>

lemma basePrice_closed:
  "basePrice p s =
     (let base = 80 + 15 * s
                 + (case vehicleValue p of
                      None \<Rightarrow> 0
                    | Some v \<Rightarrow> if v \<noteq> 0 then v / 1000 else 0)
                 + (case annualMileage p of
                      None \<Rightarrow> 0
                    | Some m \<Rightarrow> if m > 30000 then 20 else 0)
      in if budgetRange p = Some (euro # str ''50-100'') then min base 100
         else if budgetRange p = Some (euro # str ''100-150'') then min base 150
         else base)"
  by (simp add: basePrice_def Let_def mult.commute split: option.splits)

lemma output_premium:
  "get_prop (get_prop (recommendPolicy p) ''recommendation'') ''estimatedPremium'' =
     JString (calculateEstimatedPremium p (riskScore p))"
  by (simp add: recommendPolicy_def Let_def)

text \<open>The operations of the exact arithmetic.\<close>

lemma exact_ops:
  "js_lit exact = of_nat" "js_add exact = (+)" "js_mul exact = (*)"
  "js_div exact = (/)" "js_gt exact = (\<lambda>x y. x > y)" "js_truthy exact = (\<lambda>x. x \<noteq> 0)"
  "js_min exact = min" "js_round exact = (\<lambda>x. of_int (Math_round x))"
  "js_to_string exact = (\<lambda>x. int_to_string \<lfloor>x\<rfloor>)"
  by (simp_all add: exact_def)

text \<open>The translation over the exact numbers is the one over the exact arithmetic.\<close>

lemma calculateEstimatedPremium_in_exact:
  "basePrice_in exact p s = basePrice p s"
  "estimatedMonthly_in exact p s = of_int (estimatedMonthly p s)"
  "estimatedAnnual_in exact p s = of_int (estimatedAnnual p s)"
  "calculateEstimatedPremium_in exact p s = calculateEstimatedPremium p s"
proof -
  show b: "basePrice_in exact p s = basePrice p s"
    by (simp add: basePrice_in_def basePrice_def exact_ops Let_def
          cong: option.case_cong if_cong)
  show m: "estimatedMonthly_in exact p s = of_int (estimatedMonthly p s)"
    by (simp add: estimatedMonthly_in_def estimatedMonthly_def b exact_ops)
  show a: "estimatedAnnual_in exact p s = of_int (estimatedAnnual p s)"
    by (simp add: estimatedAnnual_in_def estimatedAnnual_def b exact_ops)
  show "calculateEstimatedPremium_in exact p s = calculateEstimatedPremium p s"
    by (simp add: calculateEstimatedPremium_in_def calculateEstimatedPremium_def m a
          exact_ops)
qed

text \<open>
  C4, in the arithmetic of the program, whatever it is. With base = 80 + riskScore * 15,
  plus vehicleValue / 1000 when the vehicle value is present and truthy (not rounded to
  an integer at this stage), plus 20 when the annual mileage is above 30000, and with the
  base capped by \<^verbatim>\<open>Math.min\<close> at 100 exactly for the budget range \<^verbatim>\<open>[euro]50-100\<close> and
  at 150 exactly for \<^verbatim>\<open>[euro]100-150\<close>: the monthly figure is \<^verbatim>\<open>Math.round\<close> of the
  capped base, the annual figure is \<^verbatim>\<open>Math.round\<close> of the capped base times 12, and the
  result is the euro sign, the monthly figure as the program prints it,
  \<^verbatim>\<open>/month (approximately \<close>, the euro sign, the annual figure and \<^verbatim>\<open>/year)\<close>. Under
  the first budget range, a base above 100 gives the monthly figure 100. Three facts of
  the program's arithmetic are used: a number above 30000 is truthy, the smaller of 100
  and a number above 100 is 100, and 100 rounds to 100.
\<close>

theorem C4_premium_formula:
  assumes "\<forall>x. js_gt A x (js_lit A 30000) \<longrightarrow> js_truthy A x"
    and "\<forall>x. js_gt A x (js_lit A 100) \<longrightarrow> js_min A x (js_lit A 100) = js_lit A 100"
    and "js_round A (js_lit A 100) = js_lit A 100"
  shows
  "(let b1 = js_add A (js_lit A 80) (js_mul A s (js_lit A 15));
        b2 = (case vehicleValue p of
                None \<Rightarrow> b1
              | Some v \<Rightarrow>
                  if js_truthy A v then js_add A b1 (js_div A v (js_lit A 1000)) else b1);
        base = (case annualMileage p of
                  None \<Rightarrow> b2
                | Some m \<Rightarrow>
                    if js_gt A m (js_lit A 30000) then js_add A b2 (js_lit A 20) else b2);
        capped = (if budgetRange p = Some (euro # str ''50-100'')
                  then js_min A base (js_lit A 100)
                  else if budgetRange p = Some (euro # str ''100-150'')
                  then js_min A base (js_lit A 150)
                  else base)
    in basePrice_in A p s = capped
       \<and> estimatedMonthly_in A p s = js_round A capped
       \<and> estimatedAnnual_in A p s = js_round A (js_mul A capped (js_lit A 12))
       \<and> calculateEstimatedPremium_in A p s =
           [euro] @ js_to_string A (js_round A capped) @ str ''/month (approximately ''
             @ [euro] @ js_to_string A (js_round A (js_mul A capped (js_lit A 12)))
             @ str ''/year)''
       \<and> (budgetRange p = Some (euro # str ''50-100'') \<and> js_gt A base (js_lit A 100)
            \<longrightarrow> estimatedMonthly_in A p s = js_lit A 100))"
proof -
  have mileage: "(if js_truthy A m
                  then (if js_gt A m (js_lit A 30000) then x else y) else y)
                 = (if js_gt A m (js_lit A 30000) then x else y)" for m and x y :: 'a
    using assms(1) by simp
  show ?thesis
    unfolding calculateEstimatedPremium_in_def estimatedMonthly_in_def
      estimatedAnnual_in_def basePrice_in_def
    using assms(2,3) by (simp add: Let_def mileage split: option.splits)
qed

theorem C4_premium_formula_witness:
  "budgetRange (no_profile\<lparr>vehicleValue := Some 25500,
      budgetRange := Some (euro # str ''50-100'')\<rparr>) = Some (euro # str ''50-100'')
   \<and> js_gt exact (80 + 3 * 15 + 25500 / 1000) (js_lit exact 100)
   \<and> js_truthy exact 30001
   \<and> js_min exact (80 + 3 * 15 + 25500 / 1000) (js_lit exact 100) = js_lit exact 100
   \<and> js_round exact (js_lit exact 100) = js_lit exact 100
   \<and> estimatedMonthly_in exact (no_profile\<lparr>vehicleValue := Some 25500,
        budgetRange := Some (euro # str ''50-100'')\<rparr>) 3 = 100
   \<and> estimatedAnnual_in exact (no_profile\<lparr>vehicleValue := Some 25500,
        budgetRange := Some (euro # str ''50-100'')\<rparr>) 3 = 1200
   \<and> calculateEstimatedPremium_in exact (no_profile\<lparr>vehicleValue := Some 25500,
        budgetRange := Some (euro # str ''50-100'')\<rparr>) 3
       = euro # str ''100/month (approximately '' @ euro # str ''1200/year)''"
proof -
  have l1: "\<forall>x. js_gt exact x (js_lit exact 30000) \<longrightarrow> js_truthy exact x"
    by (auto simp add: exact_ops)
  have l2: "\<forall>x. js_gt exact x (js_lit exact 100)
              \<longrightarrow> js_min exact x (js_lit exact 100) = js_lit exact 100"
    by (simp add: exact_ops)
  have l3: "js_round exact (js_lit exact 100) = js_lit exact 100"
    by (simp add: exact_ops Math_round_100)
  show ?thesis
    using C4_premium_formula
            [where A = exact and s = 3
               and p = "no_profile\<lparr>vehicleValue := Some 25500,
                          budgetRange := Some (euro # str ''50-100'')\<rparr>",
             OF l1 l2 l3]
    by (simp add: Let_def no_profile_def exact_ops Math_round_100 Math_round_1200
          int_to_string_def str_def digit_def)
qed

text \<open>
  With no negative accident count the risk score is not negative, and then, with no
  negative vehicle value, the base price is at least 80 under either cap and under none.
\<close>

lemma riskScore_nonneg:
  assumes "\<forall>c. accidentCount p = Some c \<longrightarrow> 0 \<le> c"
  shows "0 \<le> riskScore p"
proof -
  have "0 \<le> ageScoring p 0"
    by (simp add: ageScoring_def split: option.splits)
  moreover have "0 \<le> experienceScoring p 0"
    by (simp add: experienceScoring_def split: option.splits)
  moreover have "0 \<le> accidentScoring p 0"
    using assms by (simp add: accidentScoring_def accidentCount_or_1_def split: option.splits)
  moreover have "0 \<le> mileageScoring p 0"
    by (simp add: mileageScoring_def split: option.splits)
  ultimately show ?thesis
    unfolding riskScore_terms by linarith
qed

lemma basePrice_ge_80:
  assumes "0 \<le> s" and "\<forall>v. vehicleValue p = Some v \<longrightarrow> 0 \<le> v"
  shows "80 \<le> basePrice p s"
  using assms unfolding basePrice_closed
  by (simp add: Let_def split: option.splits)

text \<open>
  C10. For every profile in which each supplied number (age, driving experience, annual
  mileage, accident count, vehicle value) is non-negative, the monthly figure of the
  estimated premium is at least 80 and the annual figure at least 960, whatever the
  budget range; these are the figures printed in the result.
\<close>

theorem C10_premium_floor:
  assumes "\<forall>x. age p = Some x \<longrightarrow> 0 \<le> x"
    and "\<forall>x. drivingExperience p = Some x \<longrightarrow> 0 \<le> x"
    and "\<forall>x. annualMileage p = Some x \<longrightarrow> 0 \<le> x"
    and "\<forall>x. accidentCount p = Some x \<longrightarrow> 0 \<le> x"
    and "\<forall>x. vehicleValue p = Some x \<longrightarrow> 0 \<le> x"
  shows "80 \<le> estimatedMonthly p (riskScore p)
         \<and> 960 \<le> estimatedAnnual p (riskScore p)
         \<and> get_prop (get_prop (recommendPolicy p) ''recommendation'') ''estimatedPremium'' =
             JString ([euro] @ int_to_string (estimatedMonthly p (riskScore p))
               @ str ''/month (approximately '' @ [euro]
               @ int_to_string (estimatedAnnual p (riskScore p)) @ str ''/year)'')"
proof -
  have b: "80 \<le> basePrice p (riskScore p)"
    using assms(4,5) by (intro basePrice_ge_80 riskScore_nonneg)
  have m: "80 \<le> estimatedMonthly p (riskScore p)"
    unfolding estimatedMonthly_def using b by (intro Math_round_ge) simp
  have a: "960 \<le> estimatedAnnual p (riskScore p)"
    unfolding estimatedAnnual_def using b by (intro Math_round_ge) simp
  show ?thesis
    using m a by (simp add: output_premium calculateEstimatedPremium_def)
qed

theorem C10_premium_floor_witness:
  "age sample_profile = Some 30 \<and> drivingExperience sample_profile = Some 10
   \<and> annualMileage sample_profile = Some 10000 \<and> accidentCount sample_profile = Some 0
   \<and> vehicleValue sample_profile = Some 10000
   \<and> riskScore sample_profile = 1
   \<and> estimatedMonthly sample_profile (riskScore sample_profile) = 105
   \<and> estimatedAnnual sample_profile (riskScore sample_profile) = 1260
   \<and> 80 \<le> estimatedMonthly sample_profile (riskScore sample_profile)
   \<and> 960 \<le> estimatedAnnual sample_profile (riskScore sample_profile)"
proof -
  have r: "riskScore sample_profile = 1"
    by (simp add: sample_profile_def riskScore_def scoring_defs)
  have b: "basePrice sample_profile 1 = 105"
    by (simp add: sample_profile_def basePrice_def Let_def)
  have m: "estimatedMonthly sample_profile 1 = 105"
    by (simp add: estimatedMonthly_def b Math_round_def floor_eq_iff)
  have a: "estimatedAnnual sample_profile 1 = 1260"
    by (simp add: estimatedAnnual_def b Math_round_def floor_eq_iff)
  have f: "age sample_profile = Some 30 \<and> drivingExperience sample_profile = Some 10
    \<and> annualMileage sample_profile = Some 10000 \<and> accidentCount sample_profile = Some 0
    \<and> vehicleValue sample_profile = Some 10000"
    by (simp add: sample_profile_def)
  show ?thesis
    using C10_premium_floor [of sample_profile] f by (simp add: r m a)
qed


section \<open>The profile summary\<close>

lemma output_profileSummary:
  "get_prop (recommendPolicy p) ''profileSummary'' = profileSummary p (riskScore p)"
  by (simp add: recommendPolicy_def Let_def)

text \<open>
  C9. The \<^verbatim>\<open>profileSummary\<close> object of the result has exactly the five properties
  \<^verbatim>\<open>age\<close>, \<^verbatim>\<open>experience\<close>, \<^verbatim>\<open>vehicleType\<close>, \<^verbatim>\<open>riskLevel\<close> and \<^verbatim>\<open>riskScore\<close>, holding the
  profile's age, driving experience and vehicle type as they are (undefined when
  absent), the risk level and the risk score. The serialised object has the last two
  keys always and each of the first three exactly when the profile has the field. None of
  \<^verbatim>\<open>drivingHabits\<close>, \<^verbatim>\<open>annualMileage\<close>, \<^verbatim>\<open>hasAccidents\<close>, \<^verbatim>\<open>accidentCount\<close>,
  \<^verbatim>\<open>vehicleValue\<close>, \<^verbatim>\<open>budgetRange\<close> is a property of it.
\<close>

theorem C9_profileSummary_keys:
  "own_keys (get_prop (recommendPolicy p) ''profileSummary'') =
     [''age'', ''experience'', ''vehicleType'', ''riskLevel'', ''riskScore'']
   \<and> get_prop (get_prop (recommendPolicy p) ''profileSummary'') ''age''
       = opt_number (age p)
   \<and> get_prop (get_prop (recommendPolicy p) ''profileSummary'') ''experience''
       = opt_number (drivingExperience p)
   \<and> get_prop (get_prop (recommendPolicy p) ''profileSummary'') ''vehicleType''
       = opt_string (vehicleType p)
   \<and> get_prop (get_prop (recommendPolicy p) ''profileSummary'') ''riskLevel''
       = JString (riskLevel (riskScore p))
   \<and> get_prop (get_prop (recommendPolicy p) ''profileSummary'') ''riskScore''
       = JNumber (riskScore p)
   \<and> serialised_keys (get_prop (recommendPolicy p) ''profileSummary'') =
       (if age p = None then [] else [''age''])
       @ (if drivingExperience p = None then [] else [''experience''])
       @ (if vehicleType p = None then [] else [''vehicleType''])
       @ [''riskLevel'', ''riskScore'']
   \<and> set (own_keys (get_prop (recommendPolicy p) ''profileSummary''))
       \<inter> {''drivingHabits'', ''annualMileage'', ''hasAccidents'', ''accidentCount'',
           ''vehicleValue'', ''budgetRange''} = {}"
  unfolding output_profileSummary
  by (simp add: profileSummary_def opt_number_def opt_string_def split: option.splits)

theorem C9_profileSummary_keys_witness:
  "serialised_keys (get_prop (recommendPolicy (no_profile\<lparr>age := Some 40,
      drivingHabits := Some (str ''highway''), vehicleValue := Some 30000\<rparr>))
      ''profileSummary'') = [''age'', ''riskLevel'', ''riskScore'']
   \<and> get_prop (get_prop (recommendPolicy (no_profile\<lparr>age := Some 40,
      drivingHabits := Some (str ''highway''), vehicleValue := Some 30000\<rparr>))
      ''profileSummary'') ''experience'' = JUndefined
   \<and> get_prop (get_prop (recommendPolicy (no_profile\<lparr>age := Some 40,
      drivingHabits := Some (str ''highway''), vehicleValue := Some 30000\<rparr>))
      ''profileSummary'') ''age'' = JNumber 40"
  using C9_profileSummary_keys
          [of "no_profile\<lparr>age := Some 40, drivingHabits := Some (str ''highway''),
                 vehicleValue := Some 30000\<rparr>"]
  by (simp add: no_profile_def opt_number_def)


section \<open>Segmented text\<close>

text \<open>What the callback does to the array, over any list of elements.\<close>

lemma foldl_extractText_each:
  "foldl extractText_each acc es =
     acc @ filter (\<lambda>t. t \<noteq> []) (map (\<lambda>e. trim (textContent e)) es)"
  by (induction es arbitrary: acc) (simp_all add: extractText_each_def Let_def)

text \<open>A list of type selectors picks, from all the nodes in document order, those it matches.\<close>

lemma filter_concat_map:
  "filter P (concat (map f xs)) = concat (map (\<lambda>x. filter P (f x)) xs)"
  by (induction xs) simp_all

lemma select_node_subtrees:
  "select_node (has_tag names) n = filter (has_tag names) (subtrees n)"
proof (induction n)
  case (Element name attrs children)
  have "concat (map (select_node (has_tag names)) children)
          = concat (map (\<lambda>c. filter (has_tag names) (subtrees c)) children)"
    by (rule arg_cong [where f = concat], rule map_cong [OF refl]) (rule Element.IH)
  then show ?case
    by (simp add: filter_concat_map)
qed simp_all

lemma select_nodes:
  "select (has_tag names) doc = filter (has_tag names) (nodes doc)"
proof -
  have "select_node (has_tag names) = (\<lambda>n. filter (has_tag names) (subtrees n))"
    by (rule ext) (rule select_node_subtrees)
  then show ?thesis
    by (simp add: select_def nodes_def filter_concat_map)
qed

lemma paragraphs_closed:
  "paragraphs doc =
     filter (\<lambda>t. t \<noteq> [])
       (map (\<lambda>e. trim (textContent e)) (filter text_selector (nodes doc)))"
  by (simp add: paragraphs_def foldl_extractText_each text_selector_def select_nodes)

text \<open>The children of a node of the document are nodes of the document.\<close>

lemma subtrees_self: "n \<in> set (subtrees n)"
  by (cases n) simp_all

lemma subtrees_child:
  assumes "Element name attrs children \<in> set (subtrees n)" and "c \<in> set children"
  shows "c \<in> set (subtrees n)"
  using assms
proof (induction n)
  case (Element name' attrs' children')
  show ?case
  proof (cases "Element name attrs children = Element name' attrs' children'")
    case True
    then have "c \<in> set children'"
      using Element.prems(2) by simp
    then show ?thesis
      using subtrees_self [of c] by auto
  next
    case False
    then obtain k where "k \<in> set children'"
      and "Element name attrs children \<in> set (subtrees k)"
      using Element.prems(1) by auto
    then show ?thesis
      using Element.IH Element.prems(2) by auto
  qed
qed simp_all

lemma nodes_child:
  assumes "Element name attrs children \<in> set (nodes doc)" and "c \<in> set children"
  shows "c \<in> set (nodes doc)"
  using assms subtrees_child unfolding nodes_def by fastforce

text \<open>Two different elements with the same text give that text twice.\<close>

lemma count_list_map_two:
  assumes "a \<in> set xs" and "b \<in> set xs" and "a \<noteq> b" and "f a = y" and "f b = y"
  shows "2 \<le> count_list (map f xs) y"
proof -
  have "count_list xs a + count_list xs b \<le> count_list (map f xs) y"
    using assms(3-5) by (induction xs) auto
  moreover have "count_list xs a \<noteq> 0" and "count_list xs b \<noteq> 0"
    using assms(1,2) by (simp_all add: count_list_0_iff)
  ultimately show ?thesis by linarith
qed

lemma count_list_filter:
  "P y \<Longrightarrow> count_list (filter P xs) y = count_list xs y"
  by (induction xs) auto

lemma nested_twice:
  assumes "Element (str ''div'') a [Element (str ''p'') b [Text x]] \<in> set (nodes doc)"
    and "trim x \<noteq> []"
  shows "2 \<le> count_list (paragraphs doc) (trim x)"
proof -
  let ?p = "Element (str ''p'') b [Text x]"
  let ?d = "Element (str ''div'') a [?p]"
  let ?sel = "filter text_selector (nodes doc)"
  have "?p \<in> set (nodes doc)"
    using assms(1) by (rule nodes_child) simp
  moreover have "text_selector ?d" and "text_selector ?p"
    by (simp_all add: text_selector_def)
  ultimately have "?d \<in> set ?sel" and "?p \<in> set ?sel"
    using assms(1) by simp_all
  moreover have "?d \<noteq> ?p"
    by (simp add: str_eq_iff)
  ultimately have "2 \<le> count_list (map (\<lambda>e. trim (textContent e)) ?sel) (trim x)"
    by (rule count_list_map_two) simp_all
  then show ?thesis
    using assms(2) by (simp add: paragraphs_closed count_list_filter)
qed

text \<open>The small page with \<^verbatim>\<open>X\<close> in it.\<close>

lemma nodes_nested_example:
  "filter text_selector (nodes (nested_example x)) =
     [Element (str ''div'') [] [Element (str ''p'') [] [Text x]],
      Element (str ''p'') [] [Text x]]"
  by (simp add: nodes_def nested_example_def text_selector_def str_eq_iff)

lemma trim_X: "trim (str ''X'') = str ''X''"
  by (simp add: trim_def str_def is_white_space_def)

lemma str_X_nonempty: "str ''X'' \<noteq> []"
  by (simp add: str_def)

lemma extractText_nested_example:
  "extractText (nested_example (str ''X'')) = str ''X'' @ blank_line @ str ''X''"
  by (simp add: extractText_def paragraphs_closed nodes_nested_example trim_X str_X_nonempty)

text \<open>
  C8. Segmented-text extraction takes, from all the nodes of the page in document order,
  every element named p, h1 to h6, li, span or div, keeps the trimmed text of each when
  it is not empty, and joins the pieces with a blank line; nothing is de-duplicated. On
  the page of \<^verbatim>\<open><div><p>X</p></div>\<close> the result is X, a blank line, X; and on every
  page that holds a div whose only child is a p with a text that is not blank, that
  text, trimmed, is at least twice among the pieces.
\<close>

theorem C8_segmented_text:
  "paragraphs doc =
     filter (\<lambda>t. t \<noteq> [])
       (map (\<lambda>e. trim (textContent e))
          (filter (has_tag [''p'', ''h1'', ''h2'', ''h3'', ''h4'', ''h5'', ''h6'',
                            ''li'', ''span'', ''div'']) (nodes doc)))
   \<and> extractText doc = join blank_line (paragraphs doc)
   \<and> extractText (nested_example (str ''X'')) = str ''X'' @ blank_line @ str ''X''
   \<and> (\<forall>a b x. Element (str ''div'') a [Element (str ''p'') b [Text x]] \<in> set (nodes doc)
                 \<and> trim x \<noteq> []
         \<longrightarrow> 2 \<le> count_list (paragraphs doc) (trim x))"
proof -
  have "paragraphs doc =
     filter (\<lambda>t. t \<noteq> [])
       (map (\<lambda>e. trim (textContent e))
          (filter (has_tag [''p'', ''h1'', ''h2'', ''h3'', ''h4'', ''h5'', ''h6'',
                            ''li'', ''span'', ''div'']) (nodes doc)))"
    unfolding paragraphs_closed text_selector_def ..
  moreover have "extractText doc = join blank_line (paragraphs doc)"
    by (rule extractText_def)
  moreover note extractText_nested_example
  moreover have "\<forall>a b x. Element (str ''div'') a [Element (str ''p'') b [Text x]]
                           \<in> set (nodes doc) \<and> trim x \<noteq> []
                   \<longrightarrow> 2 \<le> count_list (paragraphs doc) (trim x)"
    using nested_twice by blast
  ultimately show ?thesis
    by (intro conjI)
qed

theorem C8_segmented_text_witness:
  "Element (str ''div'') [] [Element (str ''p'') [] [Text (str ''X'')]]
     \<in> set (nodes (nested_example (str ''X'')))
   \<and> trim (str ''X'') \<noteq> []
   \<and> paragraphs (nested_example (str ''X'')) = [str ''X'', str ''X'']
   \<and> 2 \<le> count_list (paragraphs (nested_example (str ''X''))) (trim (str ''X''))"
proof -
  have n: "Element (str ''div'') [] [Element (str ''p'') [] [Text (str ''X'')]]
             \<in> set (nodes (nested_example (str ''X'')))"
    by (simp add: nodes_def nested_example_def)
  have t: "trim (str ''X'') \<noteq> []"
    by (simp add: trim_X str_X_nonempty)
  have p: "paragraphs (nested_example (str ''X'')) = [str ''X'', str ''X'']"
    using C8_segmented_text [of "nested_example (str ''X'')"]
    by (simp add: nodes_nested_example [unfolded text_selector_def] trim_X str_X_nonempty)
  have "2 \<le> count_list (paragraphs (nested_example (str ''X''))) (trim (str ''X''))"
    using C8_segmented_text [of "nested_example (str ''X'')"] n t by blast
  with n t p show ?thesis
    by (intro conjI)
qed


section \<open>Policy information\<close>

text \<open>Whatever \<open>find\<close> returns matches the inner selector.\<close>

lemma find_node_inner:
  "e \<in> set (find_node outer inner inside n) \<Longrightarrow> inner e"
proof (induction n arbitrary: inside)
  case (Element name attrs children)
  then show ?case by (auto split: if_splits)
qed simp_all

lemma find_in_inner:
  "e \<in> set (find_in outer inner doc) \<Longrightarrow> inner e"
  unfolding find_in_def by (auto dest: find_node_inner)

text \<open>The callback reads the names of such elements back unchanged.\<close>

lemma lower_upper_item_names:
  "toLowerCase (toUpperCase (str ''h2'')) = str ''h2''"
  "toLowerCase (toUpperCase (str ''h3'')) = str ''h3''"
  "toLowerCase (toUpperCase (str ''li'')) = str ''li''"
  "toLowerCase (toUpperCase (str ''p'')) = str ''p''"
  by (simp_all add: toLowerCase_def toUpperCase_def str_def)

lemma item_names_distinct:
  "str ''h3'' \<noteq> str ''h2''" "str ''li'' \<noteq> str ''h2''" "str ''li'' \<noteq> str ''h3''"
  "str ''p'' \<noteq> str ''h2''" "str ''p'' \<noteq> str ''h3''" "str ''p'' \<noteq> str ''li''"
  by (simp_all add: str_eq_iff)

lemma policyInfo_each_item:
  assumes "item_selector e"
  shows "policyInfo_each info e =
           (if 20 < length (trim (textContent e)) then
              (if has_tag [''h2'', ''h3''] e
               then info\<lparr>coverageTypes := coverageTypes info @ [trim (textContent e)]\<rparr>
               else if has_tag [''li''] e
               then info\<lparr>features := features info @ [trim (textContent e)]\<rparr>
               else info)
            else info)"
proof (cases e)
  case (Element name attrs children)
  with assms have "name = str ''h2'' \<or> name = str ''h3'' \<or> name = str ''li'' \<or> name = str ''p''"
    by (simp add: item_selector_def)
  then show ?thesis
    unfolding Element policyInfo_each_def
    by (elim disjE) (auto simp add: Let_def lower_upper_item_names item_names_distinct)
next
  case (Text d)
  with assms show ?thesis by (simp add: item_selector_def)
next
  case (Comment d)
  with assms show ?thesis by (simp add: item_selector_def)
qed

lemma policyInfo_each_p:
  assumes "has_tag [''p''] e"
  shows "policyInfo_each info e = info"
proof -
  have "item_selector e" and "\<not> has_tag [''h2'', ''h3''] e" and "\<not> has_tag [''li''] e"
    using assms by (cases e; simp add: item_selector_def item_names_distinct)+
  then show ?thesis
    by (simp add: policyInfo_each_item)
qed

text \<open>The loop over the found elements.\<close>

lemma foldl_policyInfo_each:
  assumes "\<forall>e \<in> set es. item_selector e"
  shows "foldl policyInfo_each info es =
           info\<lparr>coverageTypes := coverageTypes info
                    @ map (\<lambda>e. trim (textContent e))
                        (filter (\<lambda>e. 20 < length (trim (textContent e))
                                      \<and> has_tag [''h2'', ''h3''] e) es),
                features := features info
                    @ map (\<lambda>e. trim (textContent e))
                        (filter (\<lambda>e. 20 < length (trim (textContent e))
                                      \<and> has_tag [''li''] e) es)\<rparr>"
  using assms
proof (induction es arbitrary: info)
  case Nil
  then show ?case by simp
next
  case (Cons e es)
  then have "item_selector e" and "\<forall>e \<in> set es. item_selector e"
    by simp_all
  then show ?case
    by (cases e) (simp_all add: Cons.IH policyInfo_each_item item_selector_def item_names_distinct)
qed

lemma getRGFPolicyInfo_lists:
  "coverageTypes (getRGFPolicyInfo doc) =
     map (\<lambda>e. trim (textContent e))
       (filter (\<lambda>e. 20 < length (trim (textContent e)) \<and> has_tag [''h2'', ''h3''] e)
          (find_in section_selector item_selector doc))"
  "features (getRGFPolicyInfo doc) =
     map (\<lambda>e. trim (textContent e))
       (filter (\<lambda>e. 20 < length (trim (textContent e)) \<and> has_tag [''li''] e)
          (find_in section_selector item_selector doc))"
  "benefits (getRGFPolicyInfo doc) = []"
proof -
  have "\<forall>e \<in> set (find_in section_selector item_selector doc). item_selector e"
    by (auto dest: find_in_inner)
  then show
    "coverageTypes (getRGFPolicyInfo doc) =
     map (\<lambda>e. trim (textContent e))
       (filter (\<lambda>e. 20 < length (trim (textContent e)) \<and> has_tag [''h2'', ''h3''] e)
          (find_in section_selector item_selector doc))"
    "features (getRGFPolicyInfo doc) =
     map (\<lambda>e. trim (textContent e))
       (filter (\<lambda>e. 20 < length (trim (textContent e)) \<and> has_tag [''li''] e)
          (find_in section_selector item_selector doc))"
    "benefits (getRGFPolicyInfo doc) = []"
    by (simp_all add: getRGFPolicyInfo_def Let_def foldl_policyInfo_each)
qed

text \<open>The small page with a section.\<close>

lemma find_in_policy_example:
  "find_in section_selector item_selector policy_example =
     [Element (str ''h2'') [] [Text (str ''  Comprehensive motor cover  '')],
      Element (str ''p'') [] [Text (str ''A paragraph that is long enough.'')],
      Element (str ''li'') [] [Text (str ''Roadside help day and night'')],
      Element (str ''h3'') [] [Text (str ''Too short'')],
      Element (str ''li'') [] [Text (str ''Legal help in every dispute'')]]"
  by (simp add: find_in_def policy_example_def section_selector_def item_selector_def
        str_def is_white_space_def)

lemma trim_policy_example:
  "trim (str ''  Comprehensive motor cover  '') = str ''Comprehensive motor cover''"
  "trim (str ''A paragraph that is long enough.'') = str ''A paragraph that is long enough.''"
  "trim (str ''Roadside help day and night'') = str ''Roadside help day and night''"
  "trim (str ''Too short'') = str ''Too short''"
  "trim (str ''Legal help in every dispute'') = str ''Legal help in every dispute''"
  by (simp_all add: trim_def str_def is_white_space_def)

lemma example_coverageTypes:
  "map (\<lambda>e. trim (textContent e))
       (filter (\<lambda>e. 20 < length (trim (textContent e)) \<and> has_tag [''h2'', ''h3''] e)
          (find_in section_selector item_selector policy_example))
   = [str ''Comprehensive motor cover'']"
  by (simp add: find_in_policy_example trim_policy_example length_str str_eq_iff)

lemma example_features:
  "map (\<lambda>e. trim (textContent e))
       (filter (\<lambda>e. 20 < length (trim (textContent e)) \<and> has_tag [''li''] e)
          (find_in section_selector item_selector policy_example))
   = [str ''Roadside help day and night'', str ''Legal help in every dispute'']"
  by (simp add: find_in_policy_example trim_policy_example length_str str_eq_iff)

text \<open>
  C7. Of the h2, h3, li and p elements found below a section, an article or an element of
  class \<^verbatim>\<open>content\<close> or \<^verbatim>\<open>policy-details\<close>, in document order, \<^verbatim>\<open>coverageTypes\<close>
  receives the trimmed texts of the h2 and h3 elements whose trimmed text is longer than
  20, and \<^verbatim>\<open>features\<close> those of the li elements; every entry of either is longer than
  20; a p element leaves the record as it is, whatever its text; and \<^verbatim>\<open>benefits\<close> is
  empty.
\<close>

theorem C7_policy_info_classes:
  "coverageTypes (getRGFPolicyInfo doc) =
     map (\<lambda>e. trim (textContent e))
       (filter (\<lambda>e. 20 < length (trim (textContent e)) \<and> has_tag [''h2'', ''h3''] e)
          (find_in section_selector item_selector doc))
   \<and> features (getRGFPolicyInfo doc) =
     map (\<lambda>e. trim (textContent e))
       (filter (\<lambda>e. 20 < length (trim (textContent e)) \<and> has_tag [''li''] e)
          (find_in section_selector item_selector doc))
   \<and> benefits (getRGFPolicyInfo doc) = []
   \<and> (\<forall>t \<in> set (coverageTypes (getRGFPolicyInfo doc) @ features (getRGFPolicyInfo doc)).
         20 < length t)
   \<and> (\<forall>e info. has_tag [''p''] e \<longrightarrow> policyInfo_each info e = info)"
  by (auto simp add: getRGFPolicyInfo_lists policyInfo_each_p)

theorem C7_policy_info_classes_witness:
  "has_tag [''p''] (Element (str ''p'') [] [Text (str ''A paragraph that is long enough.'')])
   \<and> 20 < length (trim (textContent
            (Element (str ''p'') [] [Text (str ''A paragraph that is long enough.'')])))
   \<and> policyInfo_each (getRGFPolicyInfo policy_example)
         (Element (str ''p'') [] [Text (str ''A paragraph that is long enough.'')])
       = getRGFPolicyInfo policy_example
   \<and> coverageTypes (getRGFPolicyInfo policy_example) = [str ''Comprehensive motor cover'']
   \<and> features (getRGFPolicyInfo policy_example) =
       [str ''Roadside help day and night'', str ''Legal help in every dispute'']
   \<and> benefits (getRGFPolicyInfo policy_example) = []"
proof -
  let ?p = "Element (str ''p'') [] [Text (str ''A paragraph that is long enough.'')]"
  note inst = C7_policy_info_classes [of policy_example]
  have p: "has_tag [''p''] ?p"
    by simp
  have "20 < length (trim (textContent ?p))"
    by (simp add: trim_policy_example length_str)
  moreover have "policyInfo_each (getRGFPolicyInfo policy_example) ?p
                   = getRGFPolicyInfo policy_example"
    using inst p by blast
  moreover have "coverageTypes (getRGFPolicyInfo policy_example)
                   = [str ''Comprehensive motor cover'']"
    using inst by (simp only: example_coverageTypes)
  moreover have "features (getRGFPolicyInfo policy_example) =
                   [str ''Roadside help day and night'', str ''Legal help in every dispute'']"
    using inst by (simp only: example_features)
  moreover have "benefits (getRGFPolicyInfo policy_example) = []"
    using inst by (elim conjE)
  ultimately show ?thesis
    using p by (intro conjI)
qed

end
